theory Spec2Isabelle
  imports Complex_Main "HOL-Library.Sublist" "HOL-Library.AList" "HOL-Library.Char_ord" "HOL-Library.List_Lexorder"
    "HOL-Library.Multiset"
begin

section \<open>Python strings\<close>

text \<open>
  A Python \<^verbatim>\<open>str\<close> is modelled as a \<^typ>\<open>string\<close> whose characters are the code
  points below 256 (ASCII and Latin-1), one \<^typ>\<open>char\<close> per code point. Case
  mapping, whitespace and word characters follow Python on that range. An
  optional field of a JSON object (a key that is absent or \<^verbatim>\<open>null\<close>) is a
  \<^typ>\<open>string option\<close>.
\<close>

definition code :: "char \<Rightarrow> nat" where
  "code c = of_char c"

text \<open>\<^verbatim>\<open>str.lower\<close> and \<^verbatim>\<open>str.upper\<close>, character by character.\<close>

definition lower_char :: "char \<Rightarrow> char" where
  "lower_char c =
     (if (65 \<le> code c \<and> code c \<le> 90) \<or> (192 \<le> code c \<and> code c \<le> 222 \<and> code c \<noteq> 215)
      then char_of (code c + 32) else c)"

definition upper_char :: "char \<Rightarrow> char" where
  "upper_char c =
     (if (97 \<le> code c \<and> code c \<le> 122) \<or> (224 \<le> code c \<and> code c \<le> 254 \<and> code c \<noteq> 247)
      then char_of (code c - 32) else c)"

definition lower :: "string \<Rightarrow> string" where
  "lower s = map lower_char s"

definition upper :: "string \<Rightarrow> string" where
  "upper s = map upper_char s"

text \<open>The characters \<^verbatim>\<open>str.strip()\<close> removes.\<close>

definition is_space :: "char \<Rightarrow> bool" where
  "is_space c \<longleftrightarrow>
     (9 \<le> code c \<and> code c \<le> 13) \<or> (28 \<le> code c \<and> code c \<le> 32) \<or> code c = 133 \<or> code c = 160"

definition strip :: "string \<Rightarrow> string" where
  "strip s = rev (dropWhile is_space (rev (dropWhile is_space s)))"

text \<open>\<^verbatim>\<open>sub in s\<close> on strings: \<^verbatim>\<open>sub\<close> occurs as a contiguous substring.\<close>

fun contains :: "string \<Rightarrow> string \<Rightarrow> bool" where
  "contains sub [] = (sub = [])"
| "contains sub (c # cs) = (prefix sub (c # cs) \<or> contains sub cs)"

text \<open>
  \<^verbatim>\<open>s.replace(old, new)\<close> for a non-empty \<^verbatim>\<open>old\<close>: the occurrences are replaced
  from the left, without overlap.
\<close>

fun replace :: "string \<Rightarrow> string \<Rightarrow> string \<Rightarrow> string" where
  "replace old new [] = []"
| "replace old new (c # cs) =
     (if old \<noteq> [] \<and> prefix old (c # cs)
      then new @ replace old new (drop (length old - 1) cs)
      else c # replace old new cs)"

text \<open>
  \<^verbatim>\<open>s.split(sep)\<close> for a non-empty \<^verbatim>\<open>sep\<close>; \<open>acc\<close> holds the current segment,
  reversed.
\<close>

fun split_acc :: "string \<Rightarrow> string \<Rightarrow> string \<Rightarrow> string list" where
  "split_acc sep acc [] = [rev acc]"
| "split_acc sep acc (c # cs) =
     (if sep \<noteq> [] \<and> prefix sep (c # cs)
      then rev acc # split_acc sep [] (drop (length sep - 1) cs)
      else split_acc sep (c # acc) cs)"

definition split :: "string \<Rightarrow> string \<Rightarrow> string list" where
  "split sep s = split_acc sep [] s"

text \<open>\<^verbatim>\<open>sep.join(xs)\<close>.\<close>

fun join :: "string \<Rightarrow> string list \<Rightarrow> string" where
  "join sep [] = []"
| "join sep [x] = x"
| "join sep (x # y # ys) = x @ sep @ join sep (y # ys)"

text \<open>Truthiness of an optional string: \<^verbatim>\<open>None\<close> and \<^verbatim>\<open>''\<close> are false.\<close>

fun truthy :: "string option \<Rightarrow> bool" where
  "truthy None = False"
| "truthy (Some s) = (s \<noteq> [])"

text \<open>\<^verbatim>\<open>x or default\<close> on an optional string.\<close>

definition or_else :: "string option \<Rightarrow> string \<Rightarrow> string" where
  "or_else x d = (case x of None \<Rightarrow> d | Some s \<Rightarrow> if s = [] then d else s)"

section \<open>\<^verbatim>\<open>scripts/convert_data.py\<close>\<close>

subsection \<open>Country normalisation\<close>

definition COUNTRY_CODE_MAP :: "(string \<times> string) list" where
  "COUNTRY_CODE_MAP =
    [(''US'', ''United States''), (''USA'', ''United States''), (''U.S'', ''United States''),
     (''U.S.'', ''United States''), (''UK'', ''United Kingdom''), (''GB'', ''United Kingdom''),
     (''GBR'', ''United Kingdom''), (''CN'', ''China''), (''CHN'', ''China''), (''HK'', ''China''),
     (''MO'', ''China''), (''KR'', ''South Korea''), (''DE'', ''Germany''), (''FR'', ''France''),
     (''CA'', ''Canada''), (''SG'', ''Singapore''), (''AU'', ''Australia''), (''JP'', ''Japan''),
     (''IN'', ''India''), (''ES'', ''Spain''), (''SE'', ''Sweden''), (''NL'', ''Netherlands''),
     (''BR'', ''Brazil''), (''CH'', ''Switzerland'')]"

definition INSTITUTION_COUNTRY_OVERRIDES :: "(string \<times> string) list" where
  "INSTITUTION_COUNTRY_OVERRIDES =
    [(''bytedance'', ''China''), (''harbin institute of technology'', ''China'')]"

definition normalize_country :: "string option \<Rightarrow> string" where
  "normalize_country country =
     (if \<not> truthy country then ''Unknown''
      else let c = strip (the country); up = upper c in
        case map_of COUNTRY_CODE_MAP up of
          Some full \<Rightarrow> full
        | None \<Rightarrow>
            if up \<in> set [''HONG KONG'', ''HONG KONG SAR''] then ''China''
            else if up \<in> set [''MACAU'', ''MACAO'', ''MACAU SAR''] then ''China''
            else c)"

text \<open>The loop over the override table returns at the first key found in the name.\<close>

fun first_override :: "(string \<times> string) list \<Rightarrow> string \<Rightarrow> string option" where
  "first_override [] lower_name = None"
| "first_override ((key, mapped) # rest) lower_name =
     (if contains key lower_name then Some mapped else first_override rest lower_name)"

definition infer_country_for_institution :: "string option \<Rightarrow> string option \<Rightarrow> string" where
  "infer_country_for_institution name fallback_country =
     (if \<not> truthy name then or_else fallback_country ''Unknown''
      else case first_override INSTITUTION_COUNTRY_OVERRIDES (lower (the name)) of
             Some mapped \<Rightarrow> mapped
           | None \<Rightarrow> or_else fallback_country ''Unknown'')"

subsection \<open>Institution type\<close>

text \<open>
  The keyword tables. The two company keywords written in Chinese characters
  lie outside the modelled character range and match no modelled string; they
  are left out.
\<close>

definition UNIV_KEYWORDS :: "string list" where
  "UNIV_KEYWORDS =
    [''university'', ''universit'' @ [CHR 0xE4] @ ''t'', ''universite'', ''universit'' @ [CHR 0xE9],
     ''uni '', ''uni-'', ''tech'', ''technological'', ''technology'', ''polytechnic'', ''college'',
     ''institute'', ''inst'', [CHR 0xE9] @ ''cole'', ''ecole'', ''schule'', ''academy'', ''campus'',
     ''facolt'' @ [CHR 0xE0], ''faculty'', ''eth zurich'', ''e.t.h'', ''epfl'', ''lmu'', ''lmu munich'',
     ''ludwig-maximilians'', ''berkeley'', ''mit'', ''harvard'', ''stanford'', ''oxford'',
     ''cambridge'']"

definition COMPANY_KEYWORDS :: "string list" where
  "COMPANY_KEYWORDS =
    [''inc'', ''corp'', ''co.'', ''co '', ''ltd'', ''gmbh'',
     ''google'', ''deepmind'', ''meta'', ''facebook'', ''microsoft'', ''nvidia'', ''bytedance'',
     ''tiktok'', ''tencent'', ''kuaishou'', ''alibaba'', ''baidu'', ''huawei'', ''amazon'', ''aws'',
     ''apple'', ''adobe'', ''samsung'', ''sony'', ''uber'', ''openai'', ''salesforce'', ''ibm'',
     ''intel'', ''qualcomm'', ''tesla'', ''telecom'']"

definition infer_institution_type :: "string option \<Rightarrow> string option" where
  "infer_institution_type name =
     (if \<not> truthy name then None
      else let low = lower (the name) in
        if \<exists>kw \<in> set UNIV_KEYWORDS. contains kw low then Some ''University''
        else if \<exists>kw \<in> set COMPANY_KEYWORDS. contains kw low then Some ''Company''
        else Some ''Other'')"

subsection \<open>The people and institutions tables\<close>

record person_obj =
  po_id :: "string option"
  po_name :: "string option"
  po_institution :: "string option"
  po_country :: "string option"

record person =
  name :: string
  nationality :: string
  institution :: string
  institutions :: "string list"
  gender :: string
  role :: string
  authored_papers :: "int list"
  reviewed_papers :: "int list"

record inst_entry =
  institution_name :: string
  country :: string
  institution_type :: "string option"

record tables =
  people :: "string \<rightharpoonup> person"
  institutions_map :: "string \<rightharpoonup> inst_entry"

text \<open>
  The role string of a person seen again: the stored roles, split at commas,
  with the new role added, sorted, empty entries dropped, joined by commas.
\<close>

definition merge_role :: "string \<Rightarrow> string \<Rightarrow> string" where
  "merge_role stored new_role =
     (let existing_roles = (if stored \<noteq> [] then split '','' stored else [])
      in join '','' (filter (\<lambda>r. r \<noteq> []) (sort (remdups (new_role # existing_roles)))))"

definition update_person :: "person \<Rightarrow> string \<Rightarrow> string \<Rightarrow> string \<Rightarrow> person" where
  "update_person p inst_name country_val new_role =
     (let p1 = p\<lparr>role := merge_role (role p) new_role\<rparr>;
          p2 = (if inst_name \<noteq> [] \<and> inst_name \<noteq> ''Unknown Institution''
                then (let p' = (if inst_name \<notin> set (institutions p1)
                                then p1\<lparr>institutions := institutions p1 @ [inst_name]\<rparr> else p1)
                      in if institution p' = ''Unknown Institution''
                         then p'\<lparr>institution := inst_name\<rparr> else p')
                else p1)
      in if nationality p2 = ''Unknown'' \<and> country_val \<noteq> ''Unknown''
         then p2\<lparr>nationality := country_val\<rparr> else p2)"

definition new_person :: "string \<Rightarrow> person_obj \<Rightarrow> string \<Rightarrow> string \<Rightarrow> string \<Rightarrow> person" where
  "new_person pid obj inst_name country_val new_role =
     \<lparr>name = or_else (po_name obj) (replace ''_'' '' '' (replace ''~'' '''' pid)),
      nationality = country_val,
      institution = inst_name,
      institutions = (if inst_name \<noteq> [] \<and> inst_name \<noteq> ''Unknown Institution'' then [inst_name] else []),
      gender = ''Unknown'',
      role = new_role,
      authored_papers = [],
      reviewed_papers = []\<rparr>"

definition update_institutions ::
  "(string \<rightharpoonup> inst_entry) \<Rightarrow> string \<Rightarrow> string \<Rightarrow> (string \<rightharpoonup> inst_entry)" where
  "update_institutions m inst_name country_val =
     (if inst_name \<noteq> [] \<and> inst_name \<noteq> ''Unknown Institution''
      then (let inferred_country = infer_country_for_institution (Some inst_name) (Some country_val)
            in case m inst_name of
                 None \<Rightarrow> m(inst_name \<mapsto>
                           \<lparr>institution_name = inst_name, country = inferred_country,
                            institution_type = infer_institution_type (Some inst_name)\<rparr>)
               | Some e \<Rightarrow>
                   if country e = ''Unknown'' \<and> inferred_country \<noteq> ''Unknown''
                   then m(inst_name \<mapsto> e\<lparr>country := inferred_country\<rparr>) else m)
      else m)"

definition process_person :: "tables \<Rightarrow> person_obj \<Rightarrow> string \<Rightarrow> tables" where
  "process_person t obj new_role =
     (if \<not> truthy (po_id obj) then t
      else let pid = the (po_id obj);
               inst_name = or_else (po_institution obj) ''Unknown Institution'';
               country_val = normalize_country (po_country obj);
               ppl = (case people t pid of
                        None \<Rightarrow> (people t)(pid \<mapsto> new_person pid obj inst_name country_val new_role)
                      | Some p \<Rightarrow> (people t)(pid \<mapsto> update_person p inst_name country_val new_role))
           in \<lparr>people = ppl,
               institutions_map = update_institutions (institutions_map t) inst_name country_val\<rparr>)"

subsection \<open>The conversion loop\<close>

text \<open>
  A field that the input gives either as a bare value or as an object with a
  \<^verbatim>\<open>value\<close> key; \<open>resolve\<close> is the \<^verbatim>\<open>isinstance(..., dict)\<close> test of the
  source.
\<close>

datatype 'a field = Bare "'a option" | Dict "'a option"

fun resolve :: "'a field \<Rightarrow> 'a option" where
  "resolve (Bare v) = v"
| "resolve (Dict v) = v"

record content =
  summary :: "string option"
  strengths :: "string option"
  weaknesses :: "string option"
  questions :: "string option"

record raw_review =
  rv_id :: "string option"
  rv_reviewer_profile :: "person_obj option"
  rv_signature :: "string option"
  rv_rating :: "real field"
  rv_confidence :: "real field"
  rv_content :: content

record review =
  review_id :: "string option"
  reviewer_id :: "string option"
  signature :: "string option"
  rating :: "real option"
  confidence :: "real option"
  review_content :: content

text \<open>
  A parsed input line. \<open>sub_num\<close> is the submission number after the
  source's fallback to the number at the end of the record's id.
\<close>

record raw_submission =
  sub_num :: "int option"
  sub_authors :: "person_obj list"
  sub_reviews :: "raw_review list"

record submission =
  submission_number :: int
  authors :: "string list"
  reviews :: "review list"

record conv_state =
  tabs :: tables
  reviews_output :: "(int \<times> submission) list"
  total_reviews_count :: nat

text \<open>\<^verbatim>\<open>str(x)\<close> of an optional string.\<close>

definition str_of :: "string option \<Rightarrow> string" where
  "str_of x = (case x of None \<Rightarrow> ''None'' | Some s \<Rightarrow> s)"

text \<open>The placeholder id of a review that has no reviewer id.\<close>

definition synthetic_id :: "raw_review \<Rightarrow> string" where
  "synthetic_id rv =
     (if truthy (rv_signature rv) \<and> contains ''Reviewer_'' (the (rv_signature rv))
      then ''anonymous_reviewer_'' @ (split ''Reviewer_'' (the (rv_signature rv)) ! 1)
      else ''anonymous_reviewer_'' @ str_of (rv_id rv))"

definition empty_profile :: person_obj where
  "empty_profile = \<lparr>po_id = None, po_name = None, po_institution = None, po_country = None\<rparr>"

text \<open>The reviewer id and the profile handed to \<open>process_person\<close> for one review.\<close>

definition reviewer_of :: "raw_review \<Rightarrow> string \<times> person_obj" where
  "reviewer_of rv =
     (let reviewer_profile = (case rv_reviewer_profile rv of None \<Rightarrow> empty_profile | Some pr \<Rightarrow> pr)
      in if \<not> truthy (po_id reviewer_profile)
         then (let rid = synthetic_id rv
               in (rid, \<lparr>po_id = Some rid, po_name = None,
                         po_institution = Some ''Unknown Institution'',
                         po_country = Some ''Unknown''\<rparr>))
         else (the (po_id reviewer_profile), reviewer_profile))"

definition append_authored :: "tables \<Rightarrow> string \<Rightarrow> int \<Rightarrow> tables" where
  "append_authored t pid n =
     (case people t pid of
        None \<Rightarrow> t
      | Some p \<Rightarrow> t\<lparr>people := (people t)(pid \<mapsto> p\<lparr>authored_papers := authored_papers p @ [n]\<rparr>)\<rparr>)"

definition append_reviewed :: "tables \<Rightarrow> string \<Rightarrow> int \<Rightarrow> tables" where
  "append_reviewed t pid n =
     (case people t pid of
        None \<Rightarrow> t
      | Some p \<Rightarrow> t\<lparr>people := (people t)(pid \<mapsto> p\<lparr>reviewed_papers := reviewed_papers p @ [n]\<rparr>)\<rparr>)"

definition process_author :: "int \<Rightarrow> tables \<Rightarrow> person_obj \<Rightarrow> tables" where
  "process_author n t author =
     (let t' = process_person t author ''author''
      in if truthy (po_id author) then append_authored t' (the (po_id author)) n else t')"

definition clean_review :: "raw_review \<Rightarrow> review" where
  "clean_review rv =
     \<lparr>review_id = rv_id rv,
      reviewer_id = Some (fst (reviewer_of rv)),
      signature = rv_signature rv,
      rating = resolve (rv_rating rv),
      confidence = resolve (rv_confidence rv),
      review_content = rv_content rv\<rparr>"

definition process_review :: "int \<Rightarrow> tables \<Rightarrow> raw_review \<Rightarrow> tables" where
  "process_review n t rv =
     (let (rid, reviewer_profile) = reviewer_of rv;
          t' = process_person t reviewer_profile ''reviewer''
      in append_reviewed t' rid n)"

text \<open>
  One iteration of the loop over the input lines. A record without a
  submission number, or without reviews, is skipped. The output dictionary is
  an association list in insertion order; storing under a key that is present
  replaces the value in place.
\<close>

definition convert_step :: "conv_state \<Rightarrow> raw_submission \<Rightarrow> conv_state" where
  "convert_step st sub =
     (case sub_num sub of
        None \<Rightarrow> st
      | Some n \<Rightarrow>
          if n = 0 \<or> sub_reviews sub = [] then st
          else let t1 = foldl (process_author n) (tabs st) (sub_authors sub);
                   t2 = foldl (process_review n) t1 (sub_reviews sub);
                   cleaned = \<lparr>submission_number = n,
                              authors = map (\<lambda>a. the (po_id a)) (filter (\<lambda>a. truthy (po_id a)) (sub_authors sub)),
                              reviews = map clean_review (sub_reviews sub)\<rparr>
               in \<lparr>tabs = t2,
                   reviews_output = AList.update n cleaned (reviews_output st),
                   total_reviews_count = total_reviews_count st + length (sub_reviews sub)\<rparr>)"

definition convert :: "conv_state \<Rightarrow> raw_submission list \<Rightarrow> conv_state" where
  "convert st subs = foldl convert_step st subs"

definition initial_state :: conv_state where
  "initial_state =
     \<lparr>tabs = \<lparr>people = Map.empty, institutions_map = Map.empty\<rparr>,
      reviews_output = [], total_reviews_count = 0\<rparr>"

text \<open>
  The fields of a person that carry knowledge: the nationality and the primary
  institution, each known when it differs from its placeholder.
\<close>

definition known_fields :: "person \<Rightarrow> nat" where
  "known_fields p =
     (if nationality p \<noteq> ''Unknown'' then 1 else 0) +
     (if institution p \<noteq> ''Unknown Institution'' then 1 else 0)"

subsection \<open>Merging and its examples\<close>

definition grows :: "tables \<Rightarrow> tables \<Rightarrow> bool" where
  "grows t t' \<longleftrightarrow>
     (\<forall>pid p. people t pid = Some p \<longrightarrow>
        (\<exists>p'. people t' pid = Some p' \<and> known_fields p \<le> known_fields p'))"

definition locks :: "tables \<Rightarrow> tables \<Rightarrow> bool" where
  "locks t t' \<longleftrightarrow>
     (\<forall>i e. institutions_map t i = Some e \<longrightarrow>
        (\<exists>e'. institutions_map t' i = Some e' \<and>
              (country e \<noteq> ''Unknown'' \<longrightarrow> country e' = country e)))"

definition no_content :: content where
  "no_content = \<lparr>summary = None, strengths = None, weaknesses = None, questions = None\<rparr>"

definition example_review :: raw_review where
  "example_review =
     \<lparr>rv_id = Some ''r1'', rv_reviewer_profile = None, rv_signature = Some ''Conf/Submission7/Reviewer_aBcD'',
      rv_rating = Dict (Some 6), rv_confidence = Bare (Some 3), rv_content = no_content\<rparr>"

definition example_unknown :: raw_submission where
  "example_unknown =
     \<lparr>sub_num = Some 7,
      sub_authors = [\<lparr>po_id = Some ''~Ada_L1'', po_name = None,
                      po_institution = Some ''Example Lab'', po_country = None\<rparr>],
      sub_reviews = [example_review]\<rparr>"

definition example_known :: raw_submission where
  "example_known =
     \<lparr>sub_num = Some 8,
      sub_authors = [\<lparr>po_id = Some ''~Ada_L1'', po_name = None,
                      po_institution = Some ''Example Lab'', po_country = Some ''cn''\<rparr>],
      sub_reviews = [example_review]\<rparr>"

definition ada :: "string \<Rightarrow> int list \<Rightarrow> person" where
  "ada nation ps = \<lparr>name = ''Ada L1'', nationality = nation, institution = ''Example Lab'',
       institutions = [''Example Lab''], gender = ''Unknown'', role = ''author'',
       authored_papers = ps, reviewed_papers = []\<rparr>"

definition lab :: "string \<Rightarrow> inst_entry" where
  "lab c = \<lparr>institution_name = ''Example Lab'', country = c, institution_type = Some ''Other''\<rparr>"

section \<open>\<^verbatim>\<open>extral_analysis/anomaly_detection.py\<close>\<close>

text \<open>
  The analysis scripts read the documents written by the conversion. The
  reviews document is the association list \<open>reviews_output\<close>, in the order of
  its keys. Ratings, confidences and every statistic derived from them are
  real numbers; the rounding of reported values is not modelled.
\<close>

subsection \<open>Statistics\<close>

text \<open>\<^verbatim>\<open>numpy.mean\<close> and \<^verbatim>\<open>numpy.std\<close> (the population standard deviation).\<close>

definition np_mean :: "real list \<Rightarrow> real" where
  "np_mean xs = sum_list xs / real (length xs)"

definition np_std :: "real list \<Rightarrow> real" where
  "np_std xs = sqrt (np_mean (map (\<lambda>x. \<bar>x - np_mean xs\<bar>\<^sup>2) xs))"

text \<open>\<^verbatim>\<open>len(content.get(k, '')) if content.get(k) else 0\<close>.\<close>

definition section_len :: "string option \<Rightarrow> nat" where
  "section_len s = (if truthy s then length (the s) else 0)"

definition total_len :: "content \<Rightarrow> nat" where
  "total_len c =
     section_len (summary c) + section_len (strengths c) +
     section_len (weaknesses c) + section_len (questions c)"

definition content_quality_of :: "content \<Rightarrow> nat" where
  "content_quality_of c =
     (if section_len (summary c) > 50 then 1 else 0) +
     (if section_len (strengths c) > 30 then 1 else 0) +
     (if section_len (weaknesses c) > 30 then 1 else 0) +
     (if section_len (questions c) > 20 then 1 else 0)"

subsection \<open>Collecting the reviews of each reviewer\<close>

record reviewer_stat =
  rs_ratings :: "real list"
  rs_confidences :: "real list"
  rs_text_lengths :: "nat list"
  rs_review_count :: nat
  rs_submission_numbers :: "int list"
  rs_content_quality :: "nat list"

definition empty_stat :: reviewer_stat where
  "empty_stat =
     \<lparr>rs_ratings = [], rs_confidences = [], rs_text_lengths = [], rs_review_count = 0,
      rs_submission_numbers = [], rs_content_quality = []\<rparr>"

text \<open>
  The \<^verbatim>\<open>defaultdict\<close> of reviewer statistics is an association list in the
  order in which the reviewer ids are first met.
\<close>

definition stat_of :: "(string \<times> reviewer_stat) list \<Rightarrow> string \<Rightarrow> reviewer_stat" where
  "stat_of stats rid = (case map_of stats rid of None \<Rightarrow> empty_stat | Some s \<Rightarrow> s)"

definition add_review :: "int \<Rightarrow> (string \<times> reviewer_stat) list \<Rightarrow> review \<Rightarrow> (string \<times> reviewer_stat) list" where
  "add_review submission_num stats rv =
     (if \<not> truthy (reviewer_id rv) then stats
      else let rid = the (reviewer_id rv);
               s = stat_of stats rid;
               s1 = (case rating rv of None \<Rightarrow> s | Some r \<Rightarrow> s\<lparr>rs_ratings := rs_ratings s @ [r]\<rparr>);
               s2 = (case confidence rv of None \<Rightarrow> s1 | Some c \<Rightarrow> s1\<lparr>rs_confidences := rs_confidences s1 @ [c]\<rparr>);
               s3 = s2\<lparr>rs_text_lengths := rs_text_lengths s2 @ [total_len (review_content rv)],
                       rs_review_count := rs_review_count s2 + 1,
                       rs_submission_numbers := rs_submission_numbers s2 @ [submission_num],
                       rs_content_quality := rs_content_quality s2 @ [content_quality_of (review_content rv)]\<rparr>
           in AList.update rid s3 stats)"

definition collect_reviewer_stats :: "(int \<times> submission) list \<Rightarrow> (string \<times> reviewer_stat) list" where
  "collect_reviewer_stats reviews_data =
     foldl (\<lambda>stats (submission_num, submission_data).
              foldl (add_review submission_num) stats (reviews submission_data))
       [] reviews_data"

text \<open>All reviews of the reviews document, and those of one reviewer.\<close>

definition all_reviews :: "(int \<times> submission) list \<Rightarrow> review list" where
  "all_reviews reviews_data = concat (map (\<lambda>(n, sub). reviews sub) reviews_data)"

definition reviews_by :: "string \<Rightarrow> review list \<Rightarrow> review list" where
  "reviews_by rid rvs = filter (\<lambda>rv. reviewer_id rv = Some rid) rvs"

subsection \<open>Ranking the anomaly lists\<close>

text \<open>
  \<^verbatim>\<open>sorted(xs, key=k)\<close> is a stable sort, and \<^verbatim>\<open>sorted(xs, key=k, reverse=True)\<close>
  sorts the reversed list stably and reverses the result, so that entries
  with equal keys keep their order.
\<close>

definition sorted_by :: "('a \<Rightarrow> 'k::linorder) \<Rightarrow> 'a list \<Rightarrow> 'a list" where
  "sorted_by k xs = sort_key k xs"

definition sorted_reverse :: "('a \<Rightarrow> 'k::linorder) \<Rightarrow> 'a list \<Rightarrow> 'a list" where
  "sorted_reverse k xs = rev (sort_key k (rev xs))"

text \<open>
  An entry of one of the reviewer anomaly lists, with the fields that the
  ranking reads: \<^verbatim>\<open>deviation\<close> (extreme raters), \<^verbatim>\<open>max_z_score\<close> (outliers)
  and \<^verbatim>\<open>review_count\<close>.
\<close>

record anomaly_entry =
  ae_reviewer_id :: string
  ae_deviation :: "real option"
  ae_max_z_score :: "real option"
  ae_review_count :: nat

text \<open>\<^verbatim>\<open>x.get('deviation', x.get('max_z_score', 0))\<close>.\<close>

definition deviation_key :: "anomaly_entry \<Rightarrow> real" where
  "deviation_key x =
     (case ae_deviation x of
        Some d \<Rightarrow> d
      | None \<Rightarrow> (case ae_max_z_score x of Some z \<Rightarrow> z | None \<Rightarrow> 0))"

definition rank_reviewer_anomalies :: "string \<Rightarrow> anomaly_entry list \<Rightarrow> anomaly_entry list" where
  "rank_reviewer_anomalies anomaly_type entries =
     (if anomaly_type \<in> set [''extreme_raters'', ''outlier_reviewers'']
      then take 20 (sorted_reverse deviation_key entries)
      else take 15 (sorted_reverse ae_review_count entries))"

subsection \<open>Submission anomalies\<close>

record submission_stat =
  num_reviews :: nat
  avg_rating :: real
  rating_std :: real
  min_rating :: real
  max_rating :: real
  rating_range :: real
  avg_confidence :: real
  avg_text_length :: real
  st_ratings :: "real list"

definition ratings_of :: "review list \<Rightarrow> real list" where
  "ratings_of rvs = concat (map (\<lambda>rv. case rating rv of None \<Rightarrow> [] | Some r \<Rightarrow> [r]) rvs)"

definition confidences_of :: "review list \<Rightarrow> real list" where
  "confidences_of rvs = concat (map (\<lambda>rv. case confidence rv of None \<Rightarrow> [] | Some c \<Rightarrow> [c]) rvs)"

text \<open>The statistics of one submission; a submission without a rating gets none.\<close>

definition submission_stats :: "submission \<Rightarrow> submission_stat option" where
  "submission_stats sub =
     (let rvs = reviews sub;
          ratings = ratings_of rvs;
          confidences = confidences_of rvs;
          text_lengths = map (\<lambda>rv. real (total_len (review_content rv))) rvs
      in if ratings \<noteq> []
         then Some \<lparr>num_reviews = length rvs,
                    avg_rating = np_mean ratings,
                    rating_std = (if length ratings > 1 then np_std ratings else 0),
                    min_rating = Min (set ratings),
                    max_rating = Max (set ratings),
                    rating_range = Max (set ratings) - Min (set ratings),
                    avg_confidence = (if confidences \<noteq> [] then np_mean confidences else 0),
                    avg_text_length = np_mean text_lengths,
                    st_ratings = ratings\<rparr>
         else None)"

text \<open>The four tests of the loop over the submission statistics.\<close>

definition controversial :: "submission_stat \<Rightarrow> bool" where
  "controversial s \<longleftrightarrow> rating_std s > 2.0 \<and> num_reviews s \<ge> 3"

definition consensus_outlier :: "submission_stat \<Rightarrow> bool" where
  "consensus_outlier s \<longleftrightarrow> rating_std s < 0.2 \<and> num_reviews s \<ge> 3"

definition extreme_rated :: "submission_stat \<Rightarrow> bool" where
  "extreme_rated s \<longleftrightarrow> avg_rating s \<le> 2.5 \<or> avg_rating s \<ge> 8.0"

definition low_quality_reviews :: "submission_stat \<Rightarrow> bool" where
  "low_quality_reviews s \<longleftrightarrow> avg_text_length s < 500 \<and> num_reviews s \<ge> 2"

text \<open>
  The submissions appended to \<^verbatim>\<open>controversial_papers\<close>, in the order of the
  reviews document, before the list is sorted and cut to twenty entries.
\<close>

definition controversial_papers :: "(int \<times> submission) list \<Rightarrow> int list" where
  "controversial_papers reviews_data =
     map fst (filter (\<lambda>(n, sub). case submission_stats sub of None \<Rightarrow> False | Some s \<Rightarrow> controversial s)
                     reviews_data)"

section \<open>\<^verbatim>\<open>extral_analysis/diversity_analysis.py\<close> and \<^verbatim>\<open>geographical_analysis.py\<close>\<close>

subsection \<open>The people and institutions documents\<close>

text \<open>
  A person of the people document as the diversity analysis reads it. An
  absent \<^verbatim>\<open>gender\<close> or \<^verbatim>\<open>nationality\<close> key is \<open>None\<close>; absent lists are empty.
\<close>

record affiliation =
  af_institution :: "string option"

record dperson =
  dp_gender :: "string option"
  dp_nationality :: "string option"
  dp_roles :: "string list"
  dp_affiliations :: "affiliation list"

record dinstitution =
  di_institution_name :: "string option"

text \<open>\<^verbatim>\<open>d.get(key, default)\<close> for an optional string.\<close>

definition get_or :: "string option \<Rightarrow> string \<Rightarrow> string" where
  "get_or x d = (case x of None \<Rightarrow> d | Some s \<Rightarrow> s)"

subsection \<open>Reviewer categories\<close>

definition reviewer_gender_map :: "(string \<times> dperson) list \<Rightarrow> (string \<rightharpoonup> string)" where
  "reviewer_gender_map people_data =
     foldl (\<lambda>m (person_id, person_data).
              if ''reviewer'' \<in> set (dp_roles person_data)
              then m(person_id \<mapsto> get_or (dp_gender person_data) ''Unknown'') else m)
       Map.empty people_data"

definition cultural_groups :: "(string \<times> string list) list" where
  "cultural_groups =
    [(''East_Asian'', [''China'', ''South Korea'', ''Japan'', ''Taiwan'', ''Singapore'']),
     (''Western'', [''United States'', ''Canada'', ''United Kingdom'', ''Australia'', ''Germany'',
                    ''France'', ''Netherlands'']),
     (''South_Asian'', [''India'', ''Pakistan'', ''Bangladesh'']),
     (''European'', [''Germany'', ''France'', ''Netherlands'', ''United Kingdom'', ''Italy'', ''Spain'']),
     (''Middle_Eastern'', [''Iran'', ''Israel'', ''Turkey''])]"

text \<open>The inverted table; a country of several groups keeps the last one.\<close>

definition country_to_culture :: "string \<rightharpoonup> string" where
  "country_to_culture =
     foldl (\<lambda>m (culture, countries). foldl (\<lambda>m' c. m'(c \<mapsto> culture)) m countries)
       Map.empty cultural_groups"

definition reviewer_culture_map :: "(string \<times> dperson) list \<Rightarrow> (string \<rightharpoonup> string)" where
  "reviewer_culture_map people_data =
     foldl (\<lambda>m (person_id, person_data).
              if ''reviewer'' \<in> set (dp_roles person_data)
              then m(person_id \<mapsto>
                      (case country_to_culture (get_or (dp_nationality person_data) ''Unknown'') of
                         None \<Rightarrow> ''Other'' | Some culture \<Rightarrow> culture))
              else m)
       Map.empty people_data"

text \<open>The institution types of \<open>analyze_institutional_diversity\<close>.\<close>

definition inst_type_of :: "string \<Rightarrow> string" where
  "inst_type_of inst_name =
     (if contains ''University'' inst_name \<or> contains ''College'' inst_name
      then ''University'' else ''Company'')"

definition institution_type_map :: "dinstitution list \<Rightarrow> (string \<rightharpoonup> string)" where
  "institution_type_map insts =
     foldl (\<lambda>m inst. let inst_name = get_or (di_institution_name inst) '''' in
                       m(inst_name \<mapsto> inst_type_of inst_name))
       Map.empty insts"

definition reviewer_institution_type_map ::
  "dinstitution list \<Rightarrow> (string \<times> dperson) list \<Rightarrow> (string \<rightharpoonup> string)" where
  "reviewer_institution_type_map insts people_data =
     foldl (\<lambda>m (person_id, person_data).
              if ''reviewer'' \<in> set (dp_roles person_data)
              then (case dp_affiliations person_data of
                      [] \<Rightarrow> m
                    | first_affiliation # _ \<Rightarrow>
                        let inst_name = get_or (af_institution first_affiliation) '''' in
                        m(person_id \<mapsto>
                           (case institution_type_map insts inst_name of
                              None \<Rightarrow> ''Unknown'' | Some ty \<Rightarrow> ty)))
              else m)
       Map.empty people_data"

subsection \<open>The diversity score of a panel\<close>

text \<open>
  The categories of the reviews of a submission whose reviewer is in the
  category map, in review order.
\<close>

definition panel :: "(string \<rightharpoonup> string) \<Rightarrow> review list \<Rightarrow> string list" where
  "panel category_map rvs =
     concat (map (\<lambda>rv. if truthy (reviewer_id rv)
                        then (case category_map (the (reviewer_id rv)) of
                                None \<Rightarrow> [] | Some c \<Rightarrow> [c])
                        else []) rvs)"

text \<open>
  The score of a panel; \<open>unknown\<close> is the label that does not count
  (\<^verbatim>\<open>Unknown\<close> for gender and institution type, \<^verbatim>\<open>Other\<close> for culture). \<open>None\<close>
  means that the submission gets no entry.
\<close>

definition known_in :: "string \<Rightarrow> string list \<Rightarrow> string list" where
  "known_in unknown cats = filter (\<lambda>c. c \<noteq> unknown) cats"

definition diversity_score :: "string \<Rightarrow> string list \<Rightarrow> real option" where
  "diversity_score unknown cats =
     (if length cats \<ge> 2
      then (let unique = card (set (known_in unknown cats));
                total_known = length (known_in unknown cats)
            in if total_known > 0 then Some (real unique / real (max total_known 1)) else None)
      else None)"

definition gender_diversity_score :: "(string \<rightharpoonup> string) \<Rightarrow> submission \<Rightarrow> real option" where
  "gender_diversity_score gender_map sub = diversity_score ''Unknown'' (panel gender_map (reviews sub))"

definition culture_diversity_score :: "(string \<rightharpoonup> string) \<Rightarrow> submission \<Rightarrow> real option" where
  "culture_diversity_score culture_map sub = diversity_score ''Other'' (panel culture_map (reviews sub))"

subsection \<open>Correlation of diversity and quality\<close>

record diversity_entry =
  de_diversity_score :: real
  de_avg_rating :: "real option"
  de_rating_std :: real
  de_avg_confidence :: "real option"
  de_avg_text_length :: real

record correlation =
  co_correlation :: real
  co_p_value :: real
  co_significant :: bool

record correlations =
  rating_correlation :: "correlation option"
  consistency_correlation :: "correlation option"

datatype py_error = ValueError

text \<open>
  \<^verbatim>\<open>scipy.stats.pearsonr\<close> raises \<^verbatim>\<open>ValueError\<close> when its arguments differ in
  length or hold fewer than two values. The coefficient and the p-value that
  it returns otherwise are the parameter \<open>pearson\<close>; \<open>round3\<close> stands for
  \<^verbatim>\<open>round(x, 3)\<close>.
\<close>

definition pearsonr ::
  "(real list \<Rightarrow> real list \<Rightarrow> real \<times> real) \<Rightarrow> real list \<Rightarrow> real list \<Rightarrow> py_error + real \<times> real" where
  "pearsonr pearson xs ys =
     (if length xs \<noteq> length ys \<or> length xs < 2 then Inl ValueError else Inr (pearson xs ys))"

definition mk_correlation :: "(real \<Rightarrow> real) \<Rightarrow> real \<times> real \<Rightarrow> correlation" where
  "mk_correlation round3 cp =
     \<lparr>co_correlation = round3 (fst cp), co_p_value = round3 (snd cp), co_significant = (snd cp < 0.05)\<rparr>"

text \<open>
  A key of the result dictionary that is not set is \<open>None\<close>. An exception of
  \<open>pearsonr\<close> would end the function.
\<close>

definition avg_ratings_of :: "diversity_entry list \<Rightarrow> real list" where
  "avg_ratings_of entries =
     concat (map (\<lambda>d. case de_avg_rating d of None \<Rightarrow> [] | Some r \<Rightarrow> [r]) entries)"

definition calculate_diversity_correlation ::
  "(real list \<Rightarrow> real list \<Rightarrow> real \<times> real) \<Rightarrow> (real \<Rightarrow> real) \<Rightarrow> diversity_entry list
     \<Rightarrow> py_error + correlations" where
  "calculate_diversity_correlation pearson round3 entries =
     (let diversity_scores = map de_diversity_score entries;
          avg_ratings = avg_ratings_of entries;
          rating_stds = map de_rating_std entries;
          c0 = \<lparr>rating_correlation = None, consistency_correlation = None\<rparr>;
          r1 = (if length diversity_scores = length avg_ratings \<and> length avg_ratings > 10
                then (case pearsonr pearson (take (length avg_ratings) diversity_scores) avg_ratings of
                        Inl e \<Rightarrow> Inl e
                      | Inr cp \<Rightarrow> Inr (c0\<lparr>rating_correlation := Some (mk_correlation round3 cp)\<rparr>))
                else Inr c0)
      in case r1 of
           Inl e \<Rightarrow> Inl e
         | Inr c1 \<Rightarrow>
             if length diversity_scores = length rating_stds \<and> length rating_stds > 10
             then (case pearsonr pearson diversity_scores rating_stds of
                     Inl e \<Rightarrow> Inl e
                   | Inr cp \<Rightarrow> Inr (c1\<lparr>consistency_correlation := Some (mk_correlation round3 cp)\<rparr>))
             else Inr c1)"

subsection \<open>Geographical rankings\<close>

record bias_entry =
  be_country :: string
  be_home_bias_score :: real
  be_bias_magnitude :: real
  be_total_cross_reviews :: nat

definition most_biased :: "bias_entry list \<Rightarrow> bias_entry list" where
  "most_biased bias_rankings = take 10 (sorted_reverse be_bias_magnitude bias_rankings)"

definition most_fair :: "bias_entry list \<Rightarrow> bias_entry list" where
  "most_fair bias_rankings = take 10 (sorted_by be_bias_magnitude bias_rankings)"

section \<open>Properties of the conversion\<close>

lemma nationality_update_person:
  "nationality (update_person p i c r) =
     (if nationality p = ''Unknown'' \<and> c \<noteq> ''Unknown'' then c else nationality p)"
  by (simp add: update_person_def Let_def)

lemma institution_update_person:
  "institution (update_person p i c r) =
     (if i \<noteq> [] \<and> i \<noteq> ''Unknown Institution'' \<and> institution p = ''Unknown Institution''
      then i else institution p)"
  by (simp add: update_person_def Let_def)

lemma known_fields_update_person:
  "known_fields p \<le> known_fields (update_person p i c r)"
  unfolding known_fields_def nationality_update_person institution_update_person
  by simp

lemma people_process_person:
  "people (process_person t obj r) =
     (if \<not> truthy (po_id obj) then people t
      else (people t)(the (po_id obj) \<mapsto>
             (case people t (the (po_id obj)) of
                None \<Rightarrow> new_person (the (po_id obj)) obj (or_else (po_institution obj) ''Unknown Institution'')
                          (normalize_country (po_country obj)) r
              | Some p \<Rightarrow> update_person p (or_else (po_institution obj) ''Unknown Institution'')
                          (normalize_country (po_country obj)) r)))"
  unfolding process_person_def Let_def by (cases "people t (the (po_id obj))") simp_all

lemma process_person_people:
  assumes "people t pid = Some p"
  shows "\<exists>p'. people (process_person t obj r) pid = Some p' \<and> known_fields p \<le> known_fields p'"
proof (cases "truthy (po_id obj) \<and> the (po_id obj) = pid")
  case True
  then show ?thesis using assms
    by (simp add: people_process_person known_fields_update_person)
next
  case False
  then have "people (process_person t obj r) pid = Some p"
    using assms by (auto simp: people_process_person)
  then show ?thesis by simp
qed

lemma grows_refl: "grows t t"
  by (auto simp: grows_def)

lemma grows_trans: "grows a b \<Longrightarrow> grows b c \<Longrightarrow> grows a c"
  unfolding grows_def by (meson le_trans)

lemma grows_process_person: "grows t (process_person t obj r)"
  unfolding grows_def using process_person_people by blast

lemma grows_append_authored: "grows t (append_authored t q n)"
proof (cases "people t q")
  case None then show ?thesis by (simp add: append_authored_def grows_refl)
next
  case (Some a) then show ?thesis by (simp add: append_authored_def grows_def known_fields_def)
qed

lemma grows_append_reviewed: "grows t (append_reviewed t q n)"
proof (cases "people t q")
  case None then show ?thesis by (simp add: append_reviewed_def grows_refl)
next
  case (Some a) then show ?thesis by (simp add: append_reviewed_def grows_def known_fields_def)
qed

lemma grows_process_author: "grows t (process_author n t a)"
  unfolding process_author_def Let_def
  using grows_trans[OF grows_process_person grows_append_authored] grows_process_person
  by simp

lemma grows_process_review: "grows t (process_review n t rv)"
  unfolding process_review_def Let_def
  using grows_trans[OF grows_process_person grows_append_reviewed]
  by (simp add: case_prod_beta)

lemma grows_foldl:
  assumes "\<And>s x. grows s (f s x)"
  shows "grows t (foldl f t xs)"
proof (induction xs arbitrary: t)
  case Nil show ?case by (simp add: grows_refl)
next
  case (Cons x xs)
  show ?case using grows_trans[OF assms[of t x] Cons.IH[of "f t x"]] by simp
qed

lemma grows_convert_step: "grows (tabs st) (tabs (convert_step st sub))"
proof (cases "sub_num sub")
  case None then show ?thesis by (simp add: convert_step_def grows_refl)
next
  case (Some n)
  have "grows (tabs st) (foldl (process_review n) (foldl (process_author n) (tabs st) as) rs)" for as rs
    by (rule grows_trans[OF grows_foldl grows_foldl]) (rule grows_process_author grows_process_review)+
  with Some show ?thesis
    by (simp add: convert_step_def Let_def grows_refl)
qed

lemma grows_convert: "grows (tabs st) (tabs (convert st subs))"
  unfolding convert_def
proof (induction subs arbitrary: st)
  case Nil show ?case by (simp add: grows_refl)
next
  case (Cons s subs)
  show ?case using grows_trans[OF grows_convert_step[of st s] Cons.IH[of "convert_step st s"]] by simp
qed

lemma locks_refl: "locks t t"
  by (auto simp: locks_def)

lemma locks_trans: "locks a b \<Longrightarrow> locks b c \<Longrightarrow> locks a c"
  unfolding locks_def by metis

lemma update_institutions_stored:
  assumes "m i = Some e" "i \<noteq> []" "i \<noteq> ''Unknown Institution''"
  shows "update_institutions m i c i =
           Some (if country e = ''Unknown'' \<and> infer_country_for_institution (Some i) (Some c) \<noteq> ''Unknown''
                 then e\<lparr>country := infer_country_for_institution (Some i) (Some c)\<rparr> else e)"
  using assms by (simp add: update_institutions_def Let_def)

lemma update_institutions_other:
  "j \<noteq> i \<Longrightarrow> update_institutions m i c j = m j"
  by (cases "m i") (simp_all add: update_institutions_def Let_def)

lemma update_institutions_locks:
  assumes "m j = Some e"
  shows "\<exists>e'. update_institutions m i c j = Some e' \<and>
              (country e \<noteq> ''Unknown'' \<longrightarrow> country e' = country e)"
proof (cases "j = i \<and> i \<noteq> [] \<and> i \<noteq> ''Unknown Institution''")
  case True
  then show ?thesis using assms update_institutions_stored[of m i e c] by simp
next
  case False
  have "update_institutions m i c j = m j"
  proof (cases "j = i")
    case True
    with False show ?thesis by (auto simp: update_institutions_def)
  next
    case False
    then show ?thesis by (rule update_institutions_other)
  qed
  then show ?thesis using assms by simp
qed

lemma institutions_process_person:
  "institutions_map (process_person t obj r) =
     (if \<not> truthy (po_id obj) then institutions_map t
      else update_institutions (institutions_map t)
             (or_else (po_institution obj) ''Unknown Institution'') (normalize_country (po_country obj)))"
  by (simp add: process_person_def Let_def)

lemma locks_process_person: "locks t (process_person t obj r)"
  unfolding locks_def institutions_process_person
  using update_institutions_locks by simp

lemma institutions_append_authored: "institutions_map (append_authored t q n) = institutions_map t"
  by (cases "people t q") (simp_all add: append_authored_def)

lemma institutions_append_reviewed: "institutions_map (append_reviewed t q n) = institutions_map t"
  by (cases "people t q") (simp_all add: append_reviewed_def)

lemma locks_process_author: "locks t (process_author n t a)"
  using locks_process_person[of t a "''author''"]
  by (simp add: process_author_def Let_def locks_def institutions_append_authored)

lemma locks_process_review: "locks t (process_review n t rv)"
  using locks_process_person[of t "snd (reviewer_of rv)" "''reviewer''"]
  by (simp add: process_review_def Let_def case_prod_beta locks_def institutions_append_reviewed)

lemma locks_foldl:
  assumes "\<And>s x. locks s (f s x)"
  shows "locks t (foldl f t xs)"
proof (induction xs arbitrary: t)
  case Nil show ?case by (simp add: locks_refl)
next
  case (Cons x xs)
  show ?case using locks_trans[OF assms[of t x] Cons.IH[of "f t x"]] by simp
qed

lemma locks_convert_step: "locks (tabs st) (tabs (convert_step st sub))"
proof (cases "sub_num sub")
  case None then show ?thesis by (simp add: convert_step_def locks_refl)
next
  case (Some n)
  have "locks (tabs st) (foldl (process_review n) (foldl (process_author n) (tabs st) as) rs)" for as rs
    by (rule locks_trans[OF locks_foldl locks_foldl]) (rule locks_process_author locks_process_review)+
  with Some show ?thesis
    by (simp add: convert_step_def Let_def locks_refl)
qed

lemma locks_convert: "locks (tabs st) (tabs (convert st subs))"
  unfolding convert_def
proof (induction subs arbitrary: st)
  case Nil show ?case by (simp add: locks_refl)
next
  case (Cons s subs)
  show ?case using locks_trans[OF locks_convert_step[of st s] Cons.IH[of "convert_step st s"]] by simp
qed

lemma convert_append: "convert st (A @ B) = convert (convert st A) B"
  by (simp add: convert_def)

lemma example_unknown_people: "people (tabs (convert initial_state [example_unknown])) ''~Ada_L1'' = Some (ada ''Unknown'' [7])"
  by code_simp

lemma example_unknown_institution: "institutions_map (tabs (convert initial_state [example_unknown])) ''Example Lab'' = Some (lab ''Unknown'')"
  by code_simp

lemma example_known_people: "people (tabs (convert initial_state [example_known])) ''~Ada_L1'' = Some (ada ''China'' [8])"
  by code_simp

lemma example_known_institution: "institutions_map (tabs (convert initial_state [example_known])) ''Example Lab'' = Some (lab ''China'')"
  by code_simp

lemma normalize_country_cn: "normalize_country (Some ''cn'') = ''China''"
  by code_simp

lemma infer_country_example_lab: "infer_country_for_institution (Some ''Example Lab'') (Some ''China'') = ''China''"
  by code_simp

text \<open>
  Claim C1. When \<open>process_person\<close> meets a person id that is already stored,
  a stored nationality \<^verbatim>\<open>Unknown\<close> becomes the country now seen and a stored
  known nationality stays as it is; the same holds for the country of a
  stored institution. Hence converting further records after a set \<open>A\<close> never
  lowers the number of known fields of a person stored after \<open>A\<close>, and never
  changes a known institution country.
\<close>

theorem merge_directional_monotonic:
  "(people t pid = Some p \<and> po_id obj = Some pid \<and> pid \<noteq> [] \<longrightarrow>
      (\<exists>p'. people (process_person t obj r) pid = Some p' \<and>
         (nationality p = ''Unknown'' \<longrightarrow> nationality p' = normalize_country (po_country obj)) \<and>
         (nationality p \<noteq> ''Unknown'' \<longrightarrow> nationality p' = nationality p)))
   \<and> (institutions_map t i = Some e \<and> truthy (po_id obj) \<and> po_institution obj = Some i \<and>
        i \<noteq> [] \<and> i \<noteq> ''Unknown Institution'' \<longrightarrow>
      (\<exists>e'. institutions_map (process_person t obj r) i = Some e' \<and>
         (country e = ''Unknown'' \<longrightarrow>
            country e' = infer_country_for_institution (Some i) (Some (normalize_country (po_country obj)))) \<and>
         (country e \<noteq> ''Unknown'' \<longrightarrow> country e' = country e)))
   \<and> (people (tabs (convert st A)) pid = Some p \<longrightarrow>
        (\<exists>p'. people (tabs (convert st (A @ B))) pid = Some p' \<and> known_fields p \<le> known_fields p'))
   \<and> (institutions_map (tabs (convert st A)) i = Some e \<and> country e \<noteq> ''Unknown'' \<longrightarrow>
        (\<exists>e'. institutions_map (tabs (convert st (A @ B))) i = Some e' \<and> country e' = country e))"
proof (intro conjI impI)
  assume h: "people t pid = Some p \<and> po_id obj = Some pid \<and> pid \<noteq> []"
  then show "\<exists>p'. people (process_person t obj r) pid = Some p' \<and>
         (nationality p = ''Unknown'' \<longrightarrow> nationality p' = normalize_country (po_country obj)) \<and>
         (nationality p \<noteq> ''Unknown'' \<longrightarrow> nationality p' = nationality p)"
    by (simp add: people_process_person nationality_update_person)
next
  assume h: "institutions_map t i = Some e \<and> truthy (po_id obj) \<and> po_institution obj = Some i \<and>
        i \<noteq> [] \<and> i \<noteq> ''Unknown Institution''"
  then have "or_else (po_institution obj) ''Unknown Institution'' = i"
    by (simp add: or_else_def)
  with h show "\<exists>e'. institutions_map (process_person t obj r) i = Some e' \<and>
         (country e = ''Unknown'' \<longrightarrow>
            country e' = infer_country_for_institution (Some i) (Some (normalize_country (po_country obj)))) \<and>
         (country e \<noteq> ''Unknown'' \<longrightarrow> country e' = country e)"
    by (simp add: institutions_process_person update_institutions_stored)
next
  assume "people (tabs (convert st A)) pid = Some p"
  then show "\<exists>p'. people (tabs (convert st (A @ B))) pid = Some p' \<and> known_fields p \<le> known_fields p'"
    using grows_convert[of "convert st A" B] by (simp add: convert_append grows_def)
next
  assume "institutions_map (tabs (convert st A)) i = Some e \<and> country e \<noteq> ''Unknown''"
  then show "\<exists>e'. institutions_map (tabs (convert st (A @ B))) i = Some e' \<and> country e' = country e"
    using locks_convert[of "convert st A" B] by (auto simp: convert_append locks_def)
qed

theorem merge_directional_monotonic_witness:
  "(\<exists>p'. people (process_person (tabs (convert initial_state [example_unknown]))
                  (hd (sub_authors example_known)) ''author'') ''~Ada_L1'' = Some p' \<and>
          nationality p' = ''China'') \<and>
   (\<exists>e'. institutions_map (process_person (tabs (convert initial_state [example_unknown]))
                  (hd (sub_authors example_known)) ''author'') ''Example Lab'' = Some e' \<and>
          country e' = ''China'') \<and>
   (\<exists>p'. people (process_person (tabs (convert initial_state [example_known]))
                  (hd (sub_authors example_unknown)) ''author'') ''~Ada_L1'' = Some p' \<and>
          nationality p' = ''China'') \<and>
   (\<exists>e'. institutions_map (process_person (tabs (convert initial_state [example_known]))
                  (hd (sub_authors example_unknown)) ''author'') ''Example Lab'' = Some e' \<and>
          country e' = ''China'') \<and>
   (\<exists>p'. people (tabs (convert initial_state ([example_known] @ [example_unknown]))) ''~Ada_L1'' = Some p' \<and>
          2 \<le> known_fields p') \<and>
   (\<exists>e'. institutions_map (tabs (convert initial_state ([example_known] @ [example_unknown]))) ''Example Lab'' = Some e' \<and>
          country e' = ''China'')"
proof -
  have k: "known_fields (ada ''China'' [8]) = 2"
    by (simp add: known_fields_def ada_def)
  have a: "hd (sub_authors example_known) = \<lparr>po_id = Some ''~Ada_L1'', po_name = None,
                      po_institution = Some ''Example Lab'', po_country = Some ''cn''\<rparr>"
    by (simp add: example_known_def)
  have b: "hd (sub_authors example_unknown) = \<lparr>po_id = Some ''~Ada_L1'', po_name = None,
                      po_institution = Some ''Example Lab'', po_country = None\<rparr>"
    by (simp add: example_unknown_def)
  note u = merge_directional_monotonic[of "tabs (convert initial_state [example_unknown])" "''~Ada_L1''"
      "ada ''Unknown'' [7]" "hd (sub_authors example_known)" "''author''" "''Example Lab''" "lab ''Unknown''"
      initial_state "[example_unknown]" "[]"]
  note v = merge_directional_monotonic[of "tabs (convert initial_state [example_known])" "''~Ada_L1''"
      "ada ''China'' [8]" "hd (sub_authors example_unknown)" "''author''" "''Example Lab''" "lab ''China''"
      initial_state "[example_known]" "[example_unknown]"]
  have na: "nationality (ada n ps) = n" for n ps
    by (simp add: ada_def)
  have co: "country (lab c) = c" for c
    by (simp add: lab_def)
  show ?thesis
    using u v unfolding a b
    by (simp add: example_unknown_people example_unknown_institution example_known_people example_known_institution normalize_country_cn infer_country_example_lab k na co)
qed

end
